theory Spec2Isabelle
  imports Complex_Main "HOL-Library.Multiset"
begin

section \<open>JavaScript values\<close>

text \<open>
  A JavaScript number is modelled as a real number extended by the two infinities and
  \<open>NaN\<close>. Rounding of doubles and the sign of zero are not modelled: arithmetic on finite
  numbers is exact, and a non-zero number divided by zero gives the infinity of the
  dividend's sign.
\<close>

datatype jsnum = NaN | NInf | Fin real | PInf

text \<open>The relational operators \<open><\<close>, \<open>>\<close>, \<open><=\<close>, \<open>>=\<close> on numbers: false whenever an operand is \<open>NaN\<close>.\<close>

fun num_lt :: "jsnum \<Rightarrow> jsnum \<Rightarrow> bool" where
  "num_lt NaN b = False"
| "num_lt a NaN = False"
| "num_lt PInf b = False"
| "num_lt a NInf = False"
| "num_lt NInf b = True"
| "num_lt a PInf = True"
| "num_lt (Fin x) (Fin y) = (x < y)"

definition num_le :: "jsnum \<Rightarrow> jsnum \<Rightarrow> bool" where
  "num_le a b = (a \<noteq> NaN \<and> b \<noteq> NaN \<and> (a = b \<or> num_lt a b))"

text \<open>Strict equality \<open>===\<close> of two numbers: \<open>NaN\<close> equals nothing, itself included.\<close>

definition num_seq :: "jsnum \<Rightarrow> jsnum \<Rightarrow> bool" where
  "num_seq a b = (a \<noteq> NaN \<and> a = b)"

fun num_neg :: "jsnum \<Rightarrow> jsnum" where
  "num_neg NaN = NaN"
| "num_neg NInf = PInf"
| "num_neg PInf = NInf"
| "num_neg (Fin x) = Fin (- x)"

fun num_add :: "jsnum \<Rightarrow> jsnum \<Rightarrow> jsnum" where
  "num_add NaN b = NaN"
| "num_add a NaN = NaN"
| "num_add PInf NInf = NaN"
| "num_add NInf PInf = NaN"
| "num_add PInf b = PInf"
| "num_add a PInf = PInf"
| "num_add NInf b = NInf"
| "num_add a NInf = NInf"
| "num_add (Fin x) (Fin y) = Fin (x + y)"

definition num_sub :: "jsnum \<Rightarrow> jsnum \<Rightarrow> jsnum" where
  "num_sub a b = num_add a (num_neg b)"

text \<open>
  Division. Nothing guards a zero divisor in JavaScript: \<open>0 / 0\<close> is \<open>NaN\<close> and any other
  finite number divided by zero is an infinity.
\<close>

fun num_div :: "jsnum \<Rightarrow> jsnum \<Rightarrow> jsnum" where
  "num_div NaN b = NaN"
| "num_div a NaN = NaN"
| "num_div (Fin x) (Fin y) =
     (if y = 0 then (if x = 0 then NaN else if 0 < x then PInf else NInf)
      else Fin (x / y))"
| "num_div (Fin x) b = Fin 0"
| "num_div a (Fin y) =
     (if (a = PInf) = (0 \<le> y) then PInf else NInf)"
| "num_div a b = NaN"

definition isFinite :: "jsnum \<Rightarrow> bool" where
  "isFinite a = (case a of Fin x \<Rightarrow> True | _ \<Rightarrow> False)"

text \<open>
  The values the component handles as coordinates: \<open>undefined\<close>, a number, or a
  \<open>Date\<close> object. A \<open>Date\<close> is an object, so it carries its identity (the first
  argument) beside its time value: \<open>===\<close> on two dates compares identities.
\<close>

datatype jsval = Undefined | Number jsnum | Date nat jsnum

text \<open>Conversion to a number, as the relational and arithmetic operators apply it.\<close>

fun toNumber :: "jsval \<Rightarrow> jsnum" where
  "toNumber Undefined = NaN"
| "toNumber (Number n) = n"
| "toNumber (Date r t) = t"

definition js_lt :: "jsval \<Rightarrow> jsval \<Rightarrow> bool" where
  "js_lt a b = num_lt (toNumber a) (toNumber b)"

definition js_gt :: "jsval \<Rightarrow> jsval \<Rightarrow> bool" where
  "js_gt a b = num_lt (toNumber b) (toNumber a)"

definition js_le :: "jsval \<Rightarrow> jsval \<Rightarrow> bool" where
  "js_le a b = num_le (toNumber a) (toNumber b)"

definition js_ge :: "jsval \<Rightarrow> jsval \<Rightarrow> bool" where
  "js_ge a b = num_le (toNumber b) (toNumber a)"

text \<open>Strict equality \<open>===\<close> and inequality \<open>!==\<close> of two values.\<close>

fun strict_eq :: "jsval \<Rightarrow> jsval \<Rightarrow> bool" where
  "strict_eq Undefined Undefined = True"
| "strict_eq (Number a) (Number b) = num_seq a b"
| "strict_eq (Date r t) (Date r' t') = (r = r')"
| "strict_eq a b = False"

definition strict_neq :: "jsval \<Rightarrow> jsval \<Rightarrow> bool" where
  "strict_neq a b = (\<not> strict_eq a b)"

text \<open>
  Exceptions. \<open>Error\<close> carries the message of a \<open>throw new Error(...)\<close>; \<open>TypeError\<close>
  is what the runtime raises when a property of \<open>undefined\<close> is read or a value that
  is not a function is called.
\<close>

datatype error = Error string | TypeError

text \<open>\<open>d.getTime()\<close>: only a \<open>Date\<close> has the method.\<close>

fun getTime :: "jsval \<Rightarrow> error + jsnum" where
  "getTime (Date r t) = Inr t"
| "getTime v = Inl TypeError"

section \<open>d3-array: min and max\<close>

text \<open>
  \<open>d3.min(values, accessor)\<close> and \<open>d3.max(values, accessor)\<close> are library functions. They
  scan the projected values in order, skip \<open>undefined\<close> and values that do not compare
  with themselves (\<open>NaN\<close>), and return the least (greatest) value seen, or \<open>undefined\<close>
  when there is none.
\<close>

definition d3Min_step :: "jsval \<Rightarrow> jsval \<Rightarrow> jsval" where
  "d3Min_step m v =
     (if v \<noteq> Undefined \<and> (js_gt m v \<or> (m = Undefined \<and> js_ge v v)) then v else m)"

definition d3Max_step :: "jsval \<Rightarrow> jsval \<Rightarrow> jsval" where
  "d3Max_step m v =
     (if v \<noteq> Undefined \<and> (js_lt m v \<or> (m = Undefined \<and> js_ge v v)) then v else m)"

definition d3Min :: "'p list \<Rightarrow> ('p \<Rightarrow> jsval) \<Rightarrow> jsval" where
  "d3Min vs valueof = foldl d3Min_step Undefined (map valueof vs)"

definition d3Max :: "'p list \<Rightarrow> ('p \<Rightarrow> jsval) \<Rightarrow> jsval" where
  "d3Max vs valueof = foldl d3Max_step Undefined (map valueof vs)"

section \<open>Histogram: configuration and state\<close>

text \<open>The constants of \<open>Histogram.js\<close>.\<close>

definition X_AXIS_HEIGHT :: real where "X_AXIS_HEIGHT = 18"
definition BUTTON_PADDING :: real where "BUTTON_PADDING = 20"
definition MIN_ZOOM_VALUE :: real where "MIN_ZOOM_VALUE = 1"
definition DENSITY_CHART_HEIGHT_PX :: real where "DENSITY_CHART_HEIGHT_PX = 35"
definition MIN_TOTAL_HEIGHT :: nat where "MIN_TOTAL_HEIGHT = 150"
definition PADDING :: real where "PADDING = 10"

text \<open>
  The props the modelled methods read. A data point is opaque (the type \<open>'p\<close>) and is
  only seen through the two accessors. The callback \<open>onIntervalChange\<close> is not a field:
  a call of it is recorded as an effect (below).
\<close>

record 'p props =
  data :: "'p list"
  size_width :: jsnum
  height :: jsnum
  renderPlayButton :: bool
  spaceBetweenCharts :: jsnum
  xAccessor :: "'p \<Rightarrow> jsval"
  yAccessor :: "'p \<Rightarrow> jsnum"
  minZoomUnit :: jsnum
  defaultBarCount :: jsnum

record brushDomain_t =
  min_d :: jsval
  max_d :: jsval

record histogramChartDimensions_t =
  h_width :: jsnum
  h_height :: jsnum
  heightForBars :: jsnum

record densityChartDimensions_t =
  d_width :: jsnum
  d_height :: jsnum

text \<open>
  A bin of d3's histogram generator (an array of data points with the bounds \<open>x0\<close> and
  \<open>x1\<close>), and a histogram bar: the bin spread into an object with its \<open>yValue\<close>.
\<close>

record 'p bin =
  x0 :: jsnum
  x1 :: jsnum
  points :: "'p list"

record 'p bar = "'p bin" +
  yValue :: jsnum

text \<open>
  The component's state object, and every partial state passed to \<open>setState\<close> or
  returned by \<open>getDerivedStateFromProps\<close>: a key that the object does not have is
  \<open>None\<close>. (The tooltip's \<open>selectedBarPosition\<close> and \<open>currentBar\<close> are left out: no
  method modelled here reads them.)
\<close>

record 'p state =
  timeHistogramBars :: "'p bar list option"
  showHistogramBarTooltip :: "bool option"
  histogramChartDimensions :: "histogramChartDimensions_t option"
  densityChartDimensions :: "densityChartDimensions_t option"
  data_s :: "'p list option"
  brushDomain :: "brushDomain_t option"

definition emptyObject :: "'p state" where
  "emptyObject = \<lparr> timeHistogramBars = None, showHistogramBarTooltip = None,
     histogramChartDimensions = None, densityChartDimensions = None,
     data_s = None, brushDomain = None \<rparr>"

definition orElse :: "'a option \<Rightarrow> 'a option \<Rightarrow> 'a option" where
  "orElse new old = (case new of None \<Rightarrow> old | Some v \<Rightarrow> Some v)"

text \<open>
  \<open>Object.assign(target, source)\<close>, the spread \<open>{...target, ...source}\<close> and React's merge
  of a partial state into the state: the keys of the source win.
\<close>

definition assign :: "'p state \<Rightarrow> 'p state \<Rightarrow> 'p state" where
  "assign target source = \<lparr>
     timeHistogramBars = orElse (timeHistogramBars source) (timeHistogramBars target),
     showHistogramBarTooltip =
       orElse (showHistogramBarTooltip source) (showHistogramBarTooltip target),
     histogramChartDimensions =
       orElse (histogramChartDimensions source) (histogramChartDimensions target),
     densityChartDimensions =
       orElse (densityChartDimensions source) (densityChartDimensions target),
     data_s = orElse (data_s source) (data_s target),
     brushDomain = orElse (brushDomain source) (brushDomain target) \<rparr>"

text \<open>
  Modelled from the spec: \<open>isHistogramDataEqual\<close> of \<open>utils.js\<close>, which is not among the
  sources. The spec says the incoming data is compared with the previous data "via
  accessor-projected equality, not reference identity": two data arrays are equal when
  their projections through both accessors are. A previous data that is \<open>undefined\<close>
  equals no array.
\<close>

definition isHistogramDataEqual ::
  "('p \<Rightarrow> jsval) \<Rightarrow> ('p \<Rightarrow> jsnum) \<Rightarrow> 'p list \<Rightarrow> 'p list option \<Rightarrow> bool" where
  "isHistogramDataEqual xAcc yAcc data1 data2 =
     (case data2 of
        None \<Rightarrow> False
      | Some d2 \<Rightarrow> map xAcc data1 = map xAcc d2 \<and> map yAcc data1 = map yAcc d2)"

section \<open>Histogram: layout and domain\<close>

definition calculateChartsPositionsAndSizing ::
  "'p props \<Rightarrow> histogramChartDimensions_t \<times> densityChartDimensions_t" where
  "calculateChartsPositionsAndSizing p =
     (let width = size_width p;
          playButtonPadding =
            (if renderPlayButton p
             then (if num_lt (Fin (PADDING + PADDING)) width then BUTTON_PADDING else 0)
             else 0);
          histogramHeight =
            num_sub (num_sub (height p) (Fin DENSITY_CHART_HEIGHT_PX)) (spaceBetweenCharts p)
      in (\<lparr> h_width = num_sub width (Fin PADDING),
             h_height = histogramHeight,
             heightForBars = num_sub histogramHeight (Fin X_AXIS_HEIGHT) \<rparr>,
          \<lparr> d_width = num_sub (num_sub width (Fin (PADDING * 4))) (Fin playButtonPadding),
             d_height = Fin DENSITY_CHART_HEIGHT_PX \<rparr>))"

text \<open>
  \<open>Histogram.calculateWidthsAndDomain(props, previousData, previousBrushDomain)\<close>. The
  previous domain is \<open>None\<close> when the caller passes \<open>undefined\<close>; reading its \<open>min\<close> then
  raises a \<open>TypeError\<close>. The result is the partial state \<open>nextState\<close>.
\<close>

definition calculateWidthsAndDomain ::
  "'p props \<Rightarrow> 'p list option \<Rightarrow> brushDomain_t option \<Rightarrow> error + 'p state" where
  "calculateWidthsAndDomain p previousData previousBrushDomain =
     (let (hdims, ddims) = calculateChartsPositionsAndSizing p;
          nextState = emptyObject \<lparr> histogramChartDimensions := Some hdims,
                                    densityChartDimensions := Some ddims \<rparr>;
          hasDataChanged =
            (\<not> isHistogramDataEqual (xAccessor p) (yAccessor p) (data p) previousData)
      in if hasDataChanged
         then (let nextState1 = nextState \<lparr> data_s := Some (data p) \<rparr>;
                   mn = d3Min (data p) (xAccessor p);
                   mx = d3Max (data p) (xAccessor p)
               in case previousBrushDomain of
                    None \<Rightarrow> Inl TypeError
                  | Some prev \<Rightarrow>
                      if js_gt (min_d prev) mn \<or> js_lt (max_d prev) mx
                      then Inr (nextState1 \<lparr> brushDomain := Some \<lparr> min_d = mn, max_d = mx \<rparr> \<rparr>)
                      else Inr nextState1)
         else Inr nextState)"

text \<open>
  The decimal digits of a natural number, for the template literal of the error message.
\<close>

fun decimal :: "nat \<Rightarrow> string" where
  "decimal n =
     (if n < 10 then [''0123456789'' ! n]
      else decimal (n div 10) @ [''0123456789'' ! (n mod 10)])"

text \<open>
  \<open>Histogram.getDerivedStateFromProps(props, state)\<close>. \<open>nextState\<close> always has the two
  dimension keys, so the \<open>null\<close> branch of the last line is never taken.
\<close>

definition getDerivedStateFromProps :: "'p props \<Rightarrow> 'p state \<Rightarrow> error + 'p state" where
  "getDerivedStateFromProps p st =
     (if num_lt (height p) (Fin (real MIN_TOTAL_HEIGHT))
      then Inl (Error (''The minimum height is '' @ decimal MIN_TOTAL_HEIGHT @ ''px.''))
      else calculateWidthsAndDomain p (data_s st) (brushDomain st))"

section \<open>Histogram: scale, zoom and construction\<close>

text \<open>
  The overview scale (\<open>scaleTime().domain(...).range(...)\<close>) as the component uses it: the
  time values of its domain and its pixel range. A time scale keeps the numeric time of
  each domain bound; the clipping of a time to whole milliseconds is not modelled.
\<close>

record scale_t =
  s_domain :: "jsnum \<times> jsnum"
  s_range :: "jsnum \<times> jsnum"

text \<open>The zoom behaviour, by the arguments its three setters are called with.\<close>

record zoom_t =
  scaleExtent :: "jsnum \<times> jsnum"
  translateExtent :: "(jsnum \<times> jsnum) \<times> (jsnum \<times> jsnum)"
  extent :: "(jsnum \<times> jsnum) \<times> (jsnum \<times> jsnum)"

text \<open>
  \<open>_createScaleAndZoom()\<close>. It reads \<open>this.state.brushDomain.min\<close> first, which raises a
  \<open>TypeError\<close> when the state has no \<open>brushDomain\<close>.
\<close>

definition createScaleAndZoom :: "'p props \<Rightarrow> 'p state \<Rightarrow> error + (scale_t \<times> zoom_t)" where
  "createScaleAndZoom p st =
     (case brushDomain st of
        None \<Rightarrow> Inl TypeError
      | Some bd \<Rightarrow>
         (case densityChartDimensions st of
            None \<Rightarrow> Inl TypeError
          | Some ddims \<Rightarrow>
             (case histogramChartDimensions st of
                None \<Rightarrow> Inl TypeError
              | Some hdims \<Rightarrow>
                 (let densityChartXScale =
                        \<lparr> s_domain = (toNumber (min_d bd), toNumber (max_d bd)),
                          s_range = (Fin 0, d_width ddims) \<rparr>;
                      MAX_ZOOM_VALUE =
                        num_div (num_sub (toNumber (max_d bd)) (toNumber (min_d bd)))
                          (minZoomUnit p)
                  in Inr (densityChartXScale,
                          \<lparr> scaleExtent = (Fin MIN_ZOOM_VALUE, MAX_ZOOM_VALUE),
                            translateExtent = ((Fin 0, Fin 0), (h_width hdims, h_height hdims)),
                            extent = ((Fin 0, Fin 0), (h_width hdims, h_height hdims)) \<rparr>)))))"

text \<open>The component instance: \<open>this.props\<close>, \<open>this.state\<close> and the two fields the handlers read.\<close>

record 'p histogram =
  this_props :: "'p props"
  this_state :: "'p state"
  this_densityChartXScale :: scale_t
  this_zoom :: zoom_t

text \<open>
  The constructor: the initial state is the three literal keys with the result of
  \<open>calculateWidthsAndDomain(props, [], {max: -Infinity, min: Infinity})\<close> assigned over
  them; then \<open>_createScaleAndZoom()\<close> runs.
\<close>

definition Histogram_constructor :: "'p props \<Rightarrow> error + 'p histogram" where
  "Histogram_constructor p =
     (case calculateWidthsAndDomain p (Some [])
             (Some \<lparr> min_d = Number PInf, max_d = Number NInf \<rparr>) of
        Inl e \<Rightarrow> Inl e
      | Inr nextState \<Rightarrow>
         (let st = assign (emptyObject \<lparr> timeHistogramBars := Some [],
                                          showHistogramBarTooltip := Some False \<rparr>) nextState
          in case createScaleAndZoom p st of
               Inl e \<Rightarrow> Inl e
             | Inr (sc, z) \<Rightarrow>
                 Inr \<lparr> this_props = p, this_state = st,
                       this_densityChartXScale = sc, this_zoom = z \<rparr>))"

section \<open>d3 as the handlers use it\<close>

text \<open>
  The zoom transform of an event, the source event of an event, and the event itself
  (\<open>d3Event\<close>): a zoom event has a transform, a brush event has a selection or \<open>null\<close>.
\<close>

record transform_t =
  t_k :: jsnum
  t_x :: jsnum
  t_y :: jsnum

record sourceEvent_t =
  event_type :: string

record d3Event_t =
  sourceEvent :: "sourceEvent_t option"
  transform :: "transform_t option"
  selection :: "(jsnum \<times> jsnum) option"

text \<open>
  Methods of d3's scales and transforms whose results the component only passes on. They
  are parameters of the model: \<open>scale.invert(px)\<close>, the domain of
  \<open>transform.rescaleX(scale)\<close>, the domain of a time scale after \<open>.nice(count)\<close>, and
  \<open>.ticks(count)\<close> of that scale.
\<close>

record d3lib =
  scale_invert :: "scale_t \<Rightarrow> jsnum \<Rightarrow> jsval"
  rescaleX_domain :: "transform_t \<Rightarrow> scale_t \<Rightarrow> jsval \<times> jsval"
  nice_domain :: "jsnum \<times> jsnum \<Rightarrow> jsnum \<Rightarrow> jsnum \<times> jsnum"
  scale_ticks :: "jsnum \<times> jsnum \<Rightarrow> jsnum \<Rightarrow> jsnum list"

text \<open>
  What a handler does to the world outside the component's own state: a call of the
  \<open>onIntervalChange\<close> prop with the window and the full-domain flag, a call of
  \<open>zoom.transform\<close> with \<open>zoomIdentity.scale(k).translate(x, 0)\<close>, a call of
  \<open>brush.move\<close>, and a call of the \<open>onDomainChanged\<close> prop of the density chart. A call
  is recorded with its arguments; the events that d3 emits in turn are not part of it.
\<close>

datatype effect =
    OnIntervalChange "jsnum \<times> jsnum" bool
  | ZoomTransform jsnum jsnum
  | MoveBrush "jsnum \<times> jsnum"
  | OnDomainChanged "jsnum \<times> jsnum"

subsection \<open>The histogram generator of d3-array\<close>

text \<open>
  \<open>d3.histogram().value(v).domain([x0, x1]).thresholds(tz)\<close> applied to the data, after
  the library's code: thresholds at or below \<open>x0\<close> are shifted off the front and those
  above \<open>x1\<close> popped off the back; bin \<open>i\<close> runs from threshold \<open>i - 1\<close> (or \<open>x0\<close>) to
  threshold \<open>i\<close> (or \<open>x1\<close>); a datum whose value \<open>x\<close> has \<open>x0 <= x && x <= x1\<close> is pushed
  onto the bin at index \<open>bisectRight(tz, x)\<close>, any other datum is dropped.
\<close>

function bisectRight :: "jsnum list \<Rightarrow> jsnum \<Rightarrow> nat \<Rightarrow> nat \<Rightarrow> nat" where
  "bisectRight a x lo hi =
     (if lo < hi
      then (let mid = (lo + hi) div 2
            in if num_lt x (a ! mid) then bisectRight a x lo mid
               else bisectRight a x (mid + 1) hi)
      else lo)"
  by pat_completeness auto
termination
  by (relation "measure (\<lambda>(a, x, lo, hi). hi - lo)") auto

definition trimThresholds :: "jsnum \<Rightarrow> jsnum \<Rightarrow> jsnum list \<Rightarrow> jsnum list" where
  "trimThresholds lo hi tz =
     rev (dropWhile (\<lambda>t. num_lt hi t) (rev (dropWhile (\<lambda>t. num_le t lo) tz)))"

definition initBins :: "jsnum \<Rightarrow> jsnum \<Rightarrow> jsnum list \<Rightarrow> 'p bin list" where
  "initBins lo hi tz =
     map (\<lambda>i. \<lparr> x0 = (if 0 < i then tz ! (i - 1) else lo),
                x1 = (if i < length tz then tz ! i else hi),
                points = [] \<rparr>) [0 ..< length tz + 1]"

definition pushAt :: "nat \<Rightarrow> 'p \<Rightarrow> 'p bin list \<Rightarrow> 'p bin list" where
  "pushAt i d bins = bins [i := (bins ! i) \<lparr> points := points (bins ! i) @ [d] \<rparr>]"

fun binData ::
  "('p \<Rightarrow> jsval) \<Rightarrow> jsnum \<Rightarrow> jsnum \<Rightarrow> jsnum list \<Rightarrow> 'p list \<Rightarrow> 'p bin list \<Rightarrow> 'p bin list" where
  "binData valueof lo hi tz [] bins = bins"
| "binData valueof lo hi tz (d # ds) bins =
     (let x = toNumber (valueof d)
      in binData valueof lo hi tz ds
           (if num_le lo x \<and> num_le x hi
            then pushAt (bisectRight tz x 0 (length tz)) d bins
            else bins))"

definition d3Histogram ::
  "('p \<Rightarrow> jsval) \<Rightarrow> jsnum \<times> jsnum \<Rightarrow> jsnum list \<Rightarrow> 'p list \<Rightarrow> 'p bin list" where
  "d3Histogram valueof domain thresholds ds =
     (let lo = fst domain; hi = snd domain; tz = trimThresholds lo hi thresholds
      in binData valueof lo hi tz ds (initBins lo hi tz))"

section \<open>Histogram: bars and handlers\<close>

text \<open>
  \<open>_updateHistogramChartScales()\<close>: the histogram's domain is the visible window
  (\<open>state.brushDomain\<close>) after \<open>.nice(defaultBarCount)\<close>, its thresholds are the ticks of
  that scale, and every bin becomes a bar whose \<open>yValue\<close> is the \<open>reduce\<close> of the bin with
  \<open>sum + yAccessor(curr)\<close> from \<open>0\<close>. The new bars are stored by \<open>setState\<close>. The pixel
  ranges of the x and y scales and the axes only feed the rendering and are left out.
\<close>

definition barOf :: "('p \<Rightarrow> jsnum) \<Rightarrow> 'p bin \<Rightarrow> 'p bar" where
  "barOf yAcc b =
     \<lparr> x0 = x0 b, x1 = x1 b, points = points b,
       yValue = foldl (\<lambda>sum curr. num_add sum (yAcc curr)) (Fin 0) (points b) \<rparr>"

definition histogramDomain :: "d3lib \<Rightarrow> 'p props \<Rightarrow> brushDomain_t \<Rightarrow> jsnum \<times> jsnum" where
  "histogramDomain L p bd =
     nice_domain L (toNumber (min_d bd), toNumber (max_d bd)) (defaultBarCount p)"

definition computeBars :: "d3lib \<Rightarrow> 'p props \<Rightarrow> brushDomain_t \<Rightarrow> 'p bar list" where
  "computeBars L p bd =
     (let domain = histogramDomain L p bd
      in map (barOf (yAccessor p))
           (d3Histogram (xAccessor p) domain (scale_ticks L domain (defaultBarCount p))
              (data p)))"

definition updateHistogramChartScales :: "d3lib \<Rightarrow> 'p histogram \<Rightarrow> error + 'p histogram" where
  "updateHistogramChartScales L h =
     (case brushDomain (this_state h) of
        None \<Rightarrow> Inl TypeError
      | Some bd \<Rightarrow>
         (case histogramChartDimensions (this_state h) of
            None \<Rightarrow> Inl TypeError
          | Some hdims \<Rightarrow>
              Inr (h \<lparr> this_state :=
                        assign (this_state h)
                          (emptyObject \<lparr> timeHistogramBars :=
                                           Some (computeBars L (this_props h) bd) \<rparr>) \<rparr>)))"

text \<open>
  The outcome of a handler: the component after it, the effects it had, in order, and
  the exception it ended with, if any. A state change made before an exception stays.
\<close>

type_synonym 'p outcome = "'p histogram \<times> effect list \<times> error option"

text \<open>
  \<open>_updateBrushedDomainAndReRenderTheHistogramPlot(brushedDomain)\<close>. The handlers run
  from d3's events, outside React's batching, so \<open>setState\<close> applies the partial state
  and runs its callback \<open>_updateHistogramChartScales\<close> before the next statement.
\<close>

definition updateBrushedDomainAndReRenderTheHistogramPlot ::
  "d3lib \<Rightarrow> 'p histogram \<Rightarrow> jsval \<times> jsval \<Rightarrow> 'p outcome" where
  "updateBrushedDomainAndReRenderTheHistogramPlot L h brushedDomain =
     (case brushDomain (this_state h) of
        None \<Rightarrow> (h, [], Some TypeError)
      | Some bd \<Rightarrow>
         if strict_neq (fst brushedDomain) (min_d bd) \<and> strict_neq (snd brushedDomain) (max_d bd)
         then (let h1 = h \<lparr> this_state :=
                             assign (this_state h)
                               (emptyObject \<lparr> brushDomain :=
                                                Some \<lparr> min_d = fst brushedDomain,
                                                       max_d = snd brushedDomain \<rparr>,
                                              showHistogramBarTooltip := Some False \<rparr>) \<rparr>
               in case updateHistogramChartScales L h1 of
                    Inl e \<Rightarrow> (h1, [], Some e)
                  | Inr h2 \<Rightarrow>
                     (let fullDomain = s_domain (this_densityChartXScale h2)
                      in case getTime (fst brushedDomain) of
                           Inl e \<Rightarrow> (h2, [], Some e)
                         | Inr t0 \<Rightarrow>
                            (case getTime (snd brushedDomain) of
                               Inl e \<Rightarrow> (h2, [], Some e)
                             | Inr t1 \<Rightarrow>
                                 (h2,
                                  [OnIntervalChange (t0, t1)
                                     (num_seq (fst fullDomain) t0 \<and> num_seq (snd fullDomain) t1)],
                                  None))))
         else (h, [], None))"

text \<open>\<open>d3Event.sourceEvent && d3Event.sourceEvent.type === t\<close>.\<close>

definition sourceIs :: "string \<Rightarrow> d3Event_t \<Rightarrow> bool" where
  "sourceIs t ev = (case sourceEvent ev of None \<Rightarrow> False | Some se \<Rightarrow> event_type se = t)"

text \<open>\<open>_onResizeZoom\<close>, the listener of the zoom behaviour's \<open>zoom\<close> events.\<close>

definition onResizeZoom :: "d3lib \<Rightarrow> 'p histogram \<Rightarrow> d3Event_t \<Rightarrow> 'p outcome" where
  "onResizeZoom L h ev =
     (if sourceIs ''brush'' ev then (h, [], None)
      else case transform ev of
             None \<Rightarrow> (h, [], Some TypeError)
           | Some t \<Rightarrow>
               updateBrushedDomainAndReRenderTheHistogramPlot L h
                 (rescaleX_domain L t (this_densityChartXScale h)))"

text \<open>
  \<open>_onDensityChartDomainChanged(brushSelection)\<close>, which the density chart calls as its
  \<open>onDomainChanged\<close> prop.
\<close>

definition onDensityChartDomainChanged ::
  "d3lib \<Rightarrow> 'p histogram \<Rightarrow> jsnum \<times> jsnum \<Rightarrow> 'p outcome" where
  "onDensityChartDomainChanged L h brushSelection =
     (let brushSelectionMin = fst brushSelection;
          brushSelectionMax = snd brushSelection;
          brushedDomain =
            (scale_invert L (this_densityChartXScale h) (fst brushSelection),
             scale_invert L (this_densityChartXScale h) (snd brushSelection))
      in case densityChartDimensions (this_state h) of
           None \<Rightarrow> (h, [], Some TypeError)
         | Some ddims \<Rightarrow>
            (let call = ZoomTransform
                          (num_div (d_width ddims) (num_sub brushSelectionMax brushSelectionMin))
                          (num_neg (fst brushSelection));
                 (h', effects, thrown) =
                   updateBrushedDomainAndReRenderTheHistogramPlot L h brushedDomain
             in (h', call # effects, thrown)))"

text \<open>
  \<open>componentDidUpdate(prevProps)\<close>: when the width or the data changed, the overview scale
  and the zoom are built again from the state as it is, and \<open>_setUpZoomAndChartScales\<close>
  computes the bars again (its binding of the zoom to the chart element is not
  modelled).
\<close>

definition componentDidUpdate :: "d3lib \<Rightarrow> 'p histogram \<Rightarrow> 'p props \<Rightarrow> error + 'p histogram" where
  "componentDidUpdate L h prevProps =
     (let hasWidthChanged = (\<not> num_seq (size_width prevProps) (size_width (this_props h)));
          hasDataChanged =
            (length (data prevProps) \<noteq> length (data (this_props h)) \<or>
             \<not> isHistogramDataEqual (xAccessor (this_props h)) (yAccessor (this_props h))
                  (data prevProps) (Some (data (this_props h))))
      in if hasWidthChanged \<or> hasDataChanged
         then (case createScaleAndZoom (this_props h) (this_state h) of
                 Inl e \<Rightarrow> Inl e
               | Inr (sc, z) \<Rightarrow>
                   updateHistogramChartScales L
                     (h \<lparr> this_densityChartXScale := sc, this_zoom := z \<rparr>))
         else Inr h)"

text \<open>
  A re-render of the component with new props, in React's order: the state derived from
  the new props by \<open>getDerivedStateFromProps\<close> is merged into the state, and after the
  render \<open>componentDidUpdate\<close> runs with the previous props.
\<close>

definition receiveProps :: "d3lib \<Rightarrow> 'p histogram \<Rightarrow> 'p props \<Rightarrow> error + 'p histogram" where
  "receiveProps L h newProps =
     (case getDerivedStateFromProps newProps (this_state h) of
        Inl e \<Rightarrow> Inl e
      | Inr nextState \<Rightarrow>
          componentDidUpdate L
            (h \<lparr> this_props := newProps, this_state := assign (this_state h) nextState \<rparr>)
            (this_props h))"

section \<open>DensityChart: the brush handler\<close>

record densityChart_props =
  dc_width :: jsnum
  dc_height :: jsnum
  dc_densityChartXScale :: scale_t

text \<open>
  \<open>_onResizeBrush\<close>, the listener of the brush's \<open>brush\<close> and \<open>end\<close> events. Its effects are
  the calls of \<open>_moveBrush\<close> and of the \<open>onDomainChanged\<close> prop.
\<close>

definition onResizeBrush :: "densityChart_props \<Rightarrow> d3Event_t \<Rightarrow> effect list" where
  "onResizeBrush dp ev =
     (if sourceIs ''zoom'' ev then []
      else case selection ev of
             Some sel \<Rightarrow> [OnDomainChanged sel]
           | None \<Rightarrow>
              (let brushSelection = s_range (dc_densityChartXScale dp)
               in [MoveBrush brushSelection, OnDomainChanged brushSelection]))"

section \<open>Auxiliary definitions for the properties\<close>

text \<open>
  The Domain after a partial state \<open>nextState\<close> is merged into a state whose Domain was
  \<open>prev\<close>: the \<open>brushDomain\<close> of \<open>nextState\<close> when it has the key, \<open>prev\<close> otherwise.
\<close>

definition nextDomain :: "brushDomain_t \<Rightarrow> 'p state \<Rightarrow> brushDomain_t" where
  "nextDomain prev nextState = (case brushDomain nextState of None \<Rightarrow> prev | Some d \<Rightarrow> d)"

text \<open>
  A configuration with the default props of the component, over data points that are
  pairs of an x-coordinate and a weight.
\<close>

definition exampleProps :: "(real \<times> real) list \<Rightarrow> (real \<times> real) props" where
  "exampleProps ds = \<lparr> data = ds, size_width = Fin 600, height = Fin 150,
     renderPlayButton = True, spaceBetweenCharts = Fin 10,
     xAccessor = (\<lambda>d. Number (Fin (fst d))), yAccessor = (\<lambda>d. Fin (snd d)),
     minZoomUnit = Fin 1000, defaultBarCount = Fin 18 \<rparr>"

text \<open>The component and the effects of a handler's outcome.\<close>

definition componentOf :: "'p outcome \<Rightarrow> 'p histogram" where
  "componentOf r = fst r"

definition effectsOf :: "'p outcome \<Rightarrow> effect list" where
  "effectsOf r = fst (snd r)"

text \<open>
  The calls of \<open>onIntervalChange\<close> among some effects, each with its window and flag, and
  the scale factors of the calls of \<open>zoom.transform\<close> among them.
\<close>

fun intervalChange :: "effect \<Rightarrow> ((jsnum \<times> jsnum) \<times> bool) option" where
  "intervalChange (OnIntervalChange w f) = Some (w, f)"
| "intervalChange e = None"

definition notifications :: "effect list \<Rightarrow> ((jsnum \<times> jsnum) \<times> bool) list" where
  "notifications es = List.map_filter intervalChange es"

fun zoomScale :: "effect \<Rightarrow> jsnum option" where
  "zoomScale (ZoomTransform k x) = Some k"
| "zoomScale e = None"

definition zoomScales :: "effect list \<Rightarrow> jsnum list" where
  "zoomScales es = List.map_filter zoomScale es"






text \<open>
  An instance of the d3 parameters: a linear \<open>invert\<close> (the date for a pixel gets the
  pixel's integer part as its identity), \<open>rescaleX\<close> through it, a \<open>nice\<close> that leaves the
  domain as it is, and ticks at 0, 5 and 10.
\<close>

definition linearInvert :: "scale_t \<Rightarrow> jsnum \<Rightarrow> jsnum" where
  "linearInvert sc px =
     (case (s_domain sc, s_range sc, px) of
        ((Fin d0, Fin d1), (Fin r0, Fin r1), Fin v) \<Rightarrow>
          Fin (d0 + (v - r0) / (r1 - r0) * (d1 - d0))
      | _ \<Rightarrow> NaN)"

definition exampleLib :: d3lib where
  "exampleLib = \<lparr>
     scale_invert = (\<lambda>sc px. Date (case px of Fin v \<Rightarrow> nat \<lfloor>v\<rfloor> | _ \<Rightarrow> 0) (linearInvert sc px)),
     rescaleX_domain = (\<lambda>t sc.
        (Date 1 (linearInvert sc (num_div (num_sub (fst (s_range sc)) (t_x t)) (t_k t))),
         Date 2 (linearInvert sc (num_div (num_sub (snd (s_range sc)) (t_x t)) (t_k t))))),
     nice_domain = (\<lambda>d n. d),
     scale_ticks = (\<lambda>d n. [Fin 0, Fin 5, Fin 10]) \<rparr>"

text \<open>Four data points, and the component the constructor builds on them.\<close>

definition exampleData :: "(real \<times> real) list" where
  "exampleData = [(0, 1), (3, 2), (5, 4), (10, 8)]"

definition exampleHistogram :: "(real \<times> real) histogram" where
  "exampleHistogram = \<lparr>
     this_props = exampleProps exampleData,
     this_state = \<lparr>
       timeHistogramBars = Some [],
       showHistogramBarTooltip = Some False,
       histogramChartDimensions =
         Some \<lparr> h_width = Fin 590, h_height = Fin 105, heightForBars = Fin 87 \<rparr>,
       densityChartDimensions = Some \<lparr> d_width = Fin 540, d_height = Fin 35 \<rparr>,
       data_s = Some exampleData,
       brushDomain = Some \<lparr> min_d = Number (Fin 0), max_d = Number (Fin 10) \<rparr> \<rparr>,
     this_densityChartXScale = \<lparr> s_domain = (Fin 0, Fin 10), s_range = (Fin 0, Fin 540) \<rparr>,
     this_zoom = \<lparr>
       scaleExtent = (Fin 1, Fin (1 / 100)),
       translateExtent = ((Fin 0, Fin 0), (Fin 590, Fin 105)),
       extent = ((Fin 0, Fin 0), (Fin 590, Fin 105)) \<rparr> \<rparr>"

text \<open>The props the example component passes to its density chart.\<close>

definition exampleDensityChart :: densityChart_props where
  "exampleDensityChart = \<lparr> dc_width = Fin 540, dc_height = Fin 35,
     dc_densityChartXScale = \<lparr> s_domain = (Fin 0, Fin 10), s_range = (Fin 0, Fin 540) \<rparr> \<rparr>"


section \<open>Properties\<close>

declare decimal.simps [simp del]
declare bisectRight.simps [simp del]

lemmas eval_defs =
  calculateWidthsAndDomain_def calculateChartsPositionsAndSizing_def Let_def
  isHistogramDataEqual_def d3Min_def d3Max_def d3Min_step_def d3Max_step_def
  js_lt_def js_gt_def js_le_def js_ge_def num_le_def num_sub_def num_seq_def
  X_AXIS_HEIGHT_def BUTTON_PADDING_def MIN_ZOOM_VALUE_def DENSITY_CHART_HEIGHT_PX_def
  MIN_TOTAL_HEIGHT_def PADDING_def emptyObject_def assign_def orElse_def
  createScaleAndZoom_def Histogram_constructor_def exampleProps_def nextDomain_def
  getDerivedStateFromProps_def

subsection \<open>Numbers\<close>

lemma num_lt_NaN [simp]: "\<not> num_lt a NaN" "\<not> num_lt NaN a"
  by (cases a; simp)+

lemma num_le_not_lt: "num_le a b \<Longrightarrow> \<not> num_lt b a"
  by (cases a; cases b) (auto simp: num_le_def)

lemma js_le_not_gt: "js_le a b \<Longrightarrow> \<not> js_gt a b"
  by (simp add: js_le_def js_gt_def num_le_not_lt)

lemma js_le_not_lt: "js_le a b \<Longrightarrow> \<not> js_lt b a"
  by (simp add: js_le_def js_lt_def num_le_not_lt)

lemma js_le_refl_left: "js_le a b \<Longrightarrow> js_le b b"
  by (simp add: js_le_def num_le_def)

lemma js_le_refl_right: "js_le a b \<Longrightarrow> js_le a a"
  by (simp add: js_le_def num_le_def)

lemma d3Min_Nil: "d3Min [] f = Undefined"
  by (simp add: d3Min_def)

lemma d3Max_Nil: "d3Max [] f = Undefined"
  by (simp add: d3Max_def)

subsection \<open>The Domain across data updates\<close>

lemma calc_brushDomain:
  assumes "calculateWidthsAndDomain p previousData (Some prev) = Inr ns"
  shows "brushDomain ns =
     (if \<not> isHistogramDataEqual (xAccessor p) (yAccessor p) (data p) previousData \<and>
         (js_gt (min_d prev) (d3Min (data p) (xAccessor p)) \<or>
          js_lt (max_d prev) (d3Max (data p) (xAccessor p)))
      then Some \<lparr> min_d = d3Min (data p) (xAccessor p), max_d = d3Max (data p) (xAccessor p) \<rparr>
      else None)"
  using assms
  by (auto simp: calculateWidthsAndDomain_def Let_def emptyObject_def split: prod.splits if_splits)

text \<open>
  Claim C1, as the code has it. A data update keeps the Domain or replaces it by the
  extent of the new data, \<open>{min: d3Min(data), max: d3Max(data)}\<close>, and it replaces it
  only when that extent passes the previous Domain on at least one side. So new data
  whose extent lies within the previous Domain (and empty data) leaves the Domain as it
  was, and new data whose extent contains the previous Domain widens it: the new
  minimum is at most the previous one and the new maximum at least the previous one.
\<close>

theorem C1_domain_update:
  "calculateWidthsAndDomain p previousData (Some prev) = Inr ns \<Longrightarrow>
   (nextDomain prev ns = prev \<or>
      nextDomain prev ns =
        \<lparr> min_d = d3Min (data p) (xAccessor p), max_d = d3Max (data p) (xAccessor p) \<rparr> \<and>
      (js_gt (min_d prev) (d3Min (data p) (xAccessor p)) \<or>
       js_lt (max_d prev) (d3Max (data p) (xAccessor p)))) \<and>
   (js_le (min_d prev) (d3Min (data p) (xAccessor p)) \<and>
    js_le (d3Max (data p) (xAccessor p)) (max_d prev)
      \<longrightarrow> nextDomain prev ns = prev) \<and>
   (data p = [] \<longrightarrow> nextDomain prev ns = prev) \<and>
   (js_le (d3Min (data p) (xAccessor p)) (min_d prev) \<and>
    js_le (max_d prev) (d3Max (data p) (xAccessor p))
      \<longrightarrow> js_le (min_d (nextDomain prev ns)) (min_d prev) \<and>
          js_le (max_d prev) (max_d (nextDomain prev ns)))"
proof -
  assume a: "calculateWidthsAndDomain p previousData (Some prev) = Inr ns"
  note bd = calc_brushDomain [OF a]
  have 1: "nextDomain prev ns = prev \<or>
      nextDomain prev ns =
        \<lparr> min_d = d3Min (data p) (xAccessor p), max_d = d3Max (data p) (xAccessor p) \<rparr> \<and>
      (js_gt (min_d prev) (d3Min (data p) (xAccessor p)) \<or>
       js_lt (max_d prev) (d3Max (data p) (xAccessor p)))"
    by (simp add: nextDomain_def bd)
  have 2: "js_le (min_d prev) (d3Min (data p) (xAccessor p)) \<and>
      js_le (d3Max (data p) (xAccessor p)) (max_d prev)
      \<longrightarrow> nextDomain prev ns = prev"
    by (auto simp: nextDomain_def bd dest: js_le_not_gt js_le_not_lt)
  have 3: "data p = [] \<longrightarrow> nextDomain prev ns = prev"
    by (auto simp: nextDomain_def bd d3Min_Nil d3Max_Nil js_gt_def js_lt_def)
  have 4: "js_le (d3Min (data p) (xAccessor p)) (min_d prev) \<and>
      js_le (max_d prev) (d3Max (data p) (xAccessor p))
      \<longrightarrow> js_le (min_d (nextDomain prev ns)) (min_d prev) \<and>
          js_le (max_d prev) (max_d (nextDomain prev ns))"
    by (auto simp: nextDomain_def bd dest: js_le_refl_left js_le_refl_right)
  from 1 2 3 4 show ?thesis by blast
qed

text \<open>
  The theorem at three updates from the Domain \<open>[0, 10]\<close>: to data spanning \<open>[-5, 15]\<close>
  (the extent contains the Domain, and the Domain after the update is wider on both
  sides), to data spanning \<open>[2, 8]\<close> (the extent lies within the Domain, which stays),
  and to no data (the Domain stays).
\<close>

theorem C1_domain_update_witness:
  "map_sum id
     (\<lambda>ns. js_le (min_d (nextDomain \<lparr> min_d = Number (Fin 0), max_d = Number (Fin 10) \<rparr> ns))
              (Number (Fin 0)) \<and>
           js_le (Number (Fin 10))
              (max_d (nextDomain \<lparr> min_d = Number (Fin 0), max_d = Number (Fin 10) \<rparr> ns)))
     (calculateWidthsAndDomain (exampleProps [(- 5, 1), (15, 1)]) (Some [(0, 1), (10, 1)])
        (Some \<lparr> min_d = Number (Fin 0), max_d = Number (Fin 10) \<rparr>))
   = Inr True \<and>
   map_sum id (nextDomain \<lparr> min_d = Number (Fin 0), max_d = Number (Fin 10) \<rparr>)
     (calculateWidthsAndDomain (exampleProps [(2, 1), (8, 1)]) (Some [(0, 1), (10, 1)])
        (Some \<lparr> min_d = Number (Fin 0), max_d = Number (Fin 10) \<rparr>))
   = Inr \<lparr> min_d = Number (Fin 0), max_d = Number (Fin 10) \<rparr> \<and>
   map_sum id (nextDomain \<lparr> min_d = Number (Fin 0), max_d = Number (Fin 10) \<rparr>)
     (calculateWidthsAndDomain (exampleProps []) (Some [(0, 1), (10, 1)])
        (Some \<lparr> min_d = Number (Fin 0), max_d = Number (Fin 10) \<rparr>))
   = Inr \<lparr> min_d = Number (Fin 0), max_d = Number (Fin 10) \<rparr>"
proof -
  let ?prev = "\<lparr> min_d = Number (Fin 0), max_d = Number (Fin 10) \<rparr>"
  let ?p = "exampleProps [(- 5, 1), (15, 1)]"
  let ?q = "exampleProps [(2, 1), (8, 1)]"
  let ?r = "exampleProps []"
  obtain ns where e: "calculateWidthsAndDomain ?p (Some [(0, 1), (10, 1)]) (Some ?prev) = Inr ns"
    by (simp add: eval_defs)
  have hyp: "js_le (d3Min (data ?p) (xAccessor ?p)) (min_d ?prev) \<and>
             js_le (max_d ?prev) (d3Max (data ?p) (xAccessor ?p))"
    by (simp add: eval_defs)
  from C1_domain_update [OF e] hyp
  have "js_le (min_d (nextDomain ?prev ns)) (min_d ?prev) \<and>
        js_le (max_d ?prev) (max_d (nextDomain ?prev ns))"
    by blast
  with e have 1: "map_sum id
     (\<lambda>ns. js_le (min_d (nextDomain ?prev ns)) (Number (Fin 0)) \<and>
           js_le (Number (Fin 10)) (max_d (nextDomain ?prev ns)))
     (calculateWidthsAndDomain ?p (Some [(0, 1), (10, 1)]) (Some ?prev)) = Inr True"
    by simp
  obtain ms where f: "calculateWidthsAndDomain ?q (Some [(0, 1), (10, 1)]) (Some ?prev) = Inr ms"
    by (simp add: eval_defs)
  have within: "js_le (min_d ?prev) (d3Min (data ?q) (xAccessor ?q)) \<and>
                js_le (d3Max (data ?q) (xAccessor ?q)) (max_d ?prev)"
    by (simp add: eval_defs)
  from C1_domain_update [OF f] within have "nextDomain ?prev ms = ?prev"
    by blast
  with f have 2: "map_sum id (nextDomain ?prev)
     (calculateWidthsAndDomain ?q (Some [(0, 1), (10, 1)]) (Some ?prev)) = Inr ?prev"
    by simp
  obtain ks where g: "calculateWidthsAndDomain ?r (Some [(0, 1), (10, 1)]) (Some ?prev) = Inr ks"
    by (simp add: eval_defs)
  have "data ?r = []"
    by (simp add: exampleProps_def)
  with C1_domain_update [OF g] have "nextDomain ?prev ks = ?prev"
    by blast
  with g have 3: "map_sum id (nextDomain ?prev)
     (calculateWidthsAndDomain ?r (Some [(0, 1), (10, 1)]) (Some ?prev)) = Inr ?prev"
    by simp
  from 1 2 3 show ?thesis by blast
qed

text \<open>
  Claim C1 as stated fails. A component built on data spanning \<open>[0, 10]\<close> has the Domain
  \<open>[0, 10]\<close>; an update to data spanning \<open>[-5, 5]\<close> passes the guard on the left and
  makes the Domain \<open>[-5, 5]\<close>: its maximum went down from \<open>10\<close> to \<open>5\<close>.
\<close>

theorem C1_domain_shrinks_counterexample:
  "map_sum id (brushDomain \<circ> this_state)
     (Histogram_constructor (exampleProps [(0, 1), (10, 1)]))
     = Inr (Some \<lparr> min_d = Number (Fin 0), max_d = Number (Fin 10) \<rparr>) \<and>
   map_sum id (nextDomain \<lparr> min_d = Number (Fin 0), max_d = Number (Fin 10) \<rparr>)
     (calculateWidthsAndDomain (exampleProps [(- 5, 1), (5, 1)]) (Some [(0, 1), (10, 1)])
        (Some \<lparr> min_d = Number (Fin 0), max_d = Number (Fin 10) \<rparr>))
     = Inr \<lparr> min_d = Number (Fin (- 5)), max_d = Number (Fin 5) \<rparr> \<and>
   \<not> js_ge (Number (Fin 5)) (Number (Fin 10))"
  by (simp add: eval_defs)

subsection \<open>Empty data\<close>

text \<open>
  Claim C9, at empty data. \<open>calculateWidthsAndDomain\<close> on \<open>data = []\<close> returns a partial
  state with no \<open>brushDomain\<close> (both comparisons of the seed \<open>{min: Infinity, max:
  -Infinity}\<close> with \<open>undefined\<close> are false), so the constructor's state has no Domain and
  \<open>_createScaleAndZoom\<close> raises a \<open>TypeError\<close>: no initial state comes out.
\<close>

theorem C9_empty_data_constructor_fails:
  "Histogram_constructor (exampleProps []) = Inl TypeError \<and>
   map_sum id brushDomain
     (calculateWidthsAndDomain (exampleProps []) (Some [])
        (Some \<lparr> min_d = Number PInf, max_d = Number NInf \<rparr>)) = Inr None"
  by (simp add: eval_defs)

subsection \<open>The scale extent of the zoom\<close>

text \<open>
  Claim C3, as the code has it. On a state with a Domain, \<open>_createScaleAndZoom\<close> raises
  nothing and gives the zoom the scale extent \<open>[1, (max - min) / minZoomUnit]\<close>; the
  upper bound is not clamped. It is \<open>max(1, (max - min) / minZoomUnit)\<close> when the
  Domain's extent is at least \<open>minZoomUnit\<close>, and it is \<open>0\<close> when \<open>max = min\<close>.
\<close>

theorem C3_scale_extent:
  "brushDomain st = Some bd \<Longrightarrow> densityChartDimensions st = Some ddims \<Longrightarrow>
   histogramChartDimensions st = Some hdims \<Longrightarrow>
   map_sum id (scaleExtent \<circ> snd) (createScaleAndZoom p st) =
     Inr (Fin 1, num_div (num_sub (toNumber (max_d bd)) (toNumber (min_d bd))) (minZoomUnit p)) \<and>
   (\<forall>lo hi u. toNumber (min_d bd) = Fin lo \<and> toNumber (max_d bd) = Fin hi \<and>
       minZoomUnit p = Fin u \<and> 0 < u \<and> u \<le> hi - lo \<longrightarrow>
       map_sum id (scaleExtent \<circ> snd) (createScaleAndZoom p st) =
         Inr (Fin 1, Fin (max 1 ((hi - lo) / u)))) \<and>
   (\<forall>v u. toNumber (min_d bd) = Fin v \<and> toNumber (max_d bd) = Fin v \<and>
       minZoomUnit p = Fin u \<and> u \<noteq> 0 \<longrightarrow>
       map_sum id (scaleExtent \<circ> snd) (createScaleAndZoom p st) = Inr (Fin 1, Fin 0))"
  by (simp add: createScaleAndZoom_def Let_def MIN_ZOOM_VALUE_def num_sub_def max_def)

text \<open>
  The theorem on a Domain of one day in milliseconds with \<open>minZoomUnit = 1000\<close>, where the
  scale extent is \<open>[1, 86400]\<close>, and on the Domain of the single point \<open>5\<close>, where it is
  \<open>[1, 0]\<close>.
\<close>

theorem C3_scale_extent_witness:
  "map_sum id (scaleExtent \<circ> snd)
     (createScaleAndZoom (exampleProps [(0, 1), (86400000, 1)])
        (emptyObject \<lparr>
           histogramChartDimensions :=
             Some \<lparr> h_width = Fin 590, h_height = Fin 105, heightForBars = Fin 87 \<rparr>,
           densityChartDimensions := Some \<lparr> d_width = Fin 540, d_height = Fin 35 \<rparr>,
           brushDomain := Some \<lparr> min_d = Number (Fin 0), max_d = Number (Fin 86400000) \<rparr> \<rparr>))
   = Inr (Fin 1, Fin 86400) \<and>
   map_sum id (scaleExtent \<circ> snd)
     (createScaleAndZoom (exampleProps [(5, 1)])
        (emptyObject \<lparr>
           histogramChartDimensions :=
             Some \<lparr> h_width = Fin 590, h_height = Fin 105, heightForBars = Fin 87 \<rparr>,
           densityChartDimensions := Some \<lparr> d_width = Fin 540, d_height = Fin 35 \<rparr>,
           brushDomain := Some \<lparr> min_d = Number (Fin 5), max_d = Number (Fin 5) \<rparr> \<rparr>))
   = Inr (Fin 1, Fin 0)"
  using C3_scale_extent [of
    "emptyObject \<lparr>
       histogramChartDimensions :=
         Some \<lparr> h_width = Fin 590, h_height = Fin 105, heightForBars = Fin 87 \<rparr>,
       densityChartDimensions := Some \<lparr> d_width = Fin 540, d_height = Fin 35 \<rparr>,
       brushDomain := Some \<lparr> min_d = Number (Fin 0), max_d = Number (Fin 86400000) \<rparr> \<rparr>"
    "\<lparr> min_d = Number (Fin 0), max_d = Number (Fin 86400000) \<rparr>"
    "\<lparr> d_width = Fin 540, d_height = Fin 35 \<rparr>"
    "\<lparr> h_width = Fin 590, h_height = Fin 105, heightForBars = Fin 87 \<rparr>"
    "exampleProps [(0, 1), (86400000, 1)]"]
   C3_scale_extent [of
    "emptyObject \<lparr>
       histogramChartDimensions :=
         Some \<lparr> h_width = Fin 590, h_height = Fin 105, heightForBars = Fin 87 \<rparr>,
       densityChartDimensions := Some \<lparr> d_width = Fin 540, d_height = Fin 35 \<rparr>,
       brushDomain := Some \<lparr> min_d = Number (Fin 5), max_d = Number (Fin 5) \<rparr> \<rparr>"
    "\<lparr> min_d = Number (Fin 5), max_d = Number (Fin 5) \<rparr>"
    "\<lparr> d_width = Fin 540, d_height = Fin 35 \<rparr>"
    "\<lparr> h_width = Fin 590, h_height = Fin 105, heightForBars = Fin 87 \<rparr>"
    "exampleProps [(5, 1)]"]
  by (simp add: emptyObject_def exampleProps_def num_sub_def)

text \<open>
  Claim C3 as stated fails. On data of a single point (\<open>max = min = 5\<close>) the constructor
  succeeds and the scale extent is \<open>[1, 0]\<close>, not \<open>[1, max(1, 0 / 1000)] = [1, 1]\<close>.
\<close>

theorem C3_single_point_counterexample:
  "map_sum id (scaleExtent \<circ> this_zoom) (Histogram_constructor (exampleProps [(5, 1)]))
     = Inr (Fin 1, Fin 0) \<and>
   (Fin 1, Fin 0) \<noteq> (Fin 1, Fin (max 1 ((5 - 5) / 1000)))"
  by (simp add: eval_defs)

subsection \<open>The minimum height\<close>

lemma decimal_MIN_TOTAL_HEIGHT: "decimal MIN_TOTAL_HEIGHT = ''150''"
  by (simp add: decimal.simps MIN_TOTAL_HEIGHT_def)

lemma calculateWidthsAndDomain_not_Error:
  "calculateWidthsAndDomain p previousData previousBrushDomain \<noteq> Inl (Error msg)"
  by (auto simp: calculateWidthsAndDomain_def Let_def split: prod.splits option.splits)

text \<open>
  Claim C6. \<open>getDerivedStateFromProps\<close>, which applies a configuration, throws
  \<open>Error("The minimum height is 150px.")\<close> at once when the height is below
  \<open>MIN_TOTAL_HEIGHT = 150\<close>, before anything else is computed; at a height that is not
  below 150 it throws no \<open>Error\<close> with any message.
\<close>

theorem C6_minimum_height:
  "(num_lt (height p) (Fin (real MIN_TOTAL_HEIGHT)) \<longrightarrow>
     getDerivedStateFromProps p st = Inl (Error ''The minimum height is 150px.'')) \<and>
   (\<not> num_lt (height p) (Fin (real MIN_TOTAL_HEIGHT)) \<longrightarrow>
     (\<forall>msg. getDerivedStateFromProps p st \<noteq> Inl (Error msg)))"
  by (simp add: getDerivedStateFromProps_def decimal_MIN_TOTAL_HEIGHT
      calculateWidthsAndDomain_not_Error)

text \<open>The theorem at the heights 149 and 150.\<close>

theorem C6_minimum_height_witness:
  "getDerivedStateFromProps ((exampleProps [(0, 1)]) \<lparr> height := Fin 149 \<rparr>) emptyObject
     = Inl (Error ''The minimum height is 150px.'') \<and>
   (\<forall>msg. getDerivedStateFromProps (exampleProps [(0, 1)]) emptyObject \<noteq> Inl (Error msg))"
  using C6_minimum_height [of "(exampleProps [(0, 1)]) \<lparr> height := Fin 149 \<rparr>" emptyObject]
        C6_minimum_height [of "exampleProps [(0, 1)]" emptyObject]
  by (simp add: exampleProps_def MIN_TOTAL_HEIGHT_def)

subsection \<open>The example component\<close>

lemma exampleHistogram_constructed:
  "Histogram_constructor (exampleProps exampleData) = Inr exampleHistogram"
  by (simp add: eval_defs exampleData_def exampleHistogram_def)


lemma notifications_simps [simp]:
  "notifications [] = []"
  "notifications (OnIntervalChange w f # es) = (w, f) # notifications es"
  "notifications (ZoomTransform k x # es) = notifications es"
  "notifications (MoveBrush r # es) = notifications es"
  "notifications (OnDomainChanged r # es) = notifications es"
  by (simp_all add: notifications_def map_filter_simps)

lemma zoomScales_simps [simp]:
  "zoomScales [] = []"
  "zoomScales (OnIntervalChange w f # es) = zoomScales es"
  "zoomScales (ZoomTransform k x # es) = k # zoomScales es"
  "zoomScales (MoveBrush r # es) = zoomScales es"
  "zoomScales (OnDomainChanged r # es) = zoomScales es"
  by (simp_all add: zoomScales_def map_filter_simps)

subsection \<open>The provenance checks of the two handlers\<close>

text \<open>
  Claim C2. The zoom handler does nothing on an event whose source event has the type
  \<open>brush\<close>: the component is unchanged, nothing is called and nothing is thrown,
  whatever the transform. The brush handler does nothing on an event whose source event
  has the type \<open>zoom\<close>: it calls neither \<open>_moveBrush\<close> nor \<open>onDomainChanged\<close>, whatever
  the selection.
\<close>

theorem C2_feedback_suppression:
  "(sourceEvent ev = Some src \<and> event_type src = ''brush'' \<longrightarrow>
      onResizeZoom L h ev = (h, [], None)) \<and>
   (sourceEvent ev = Some src \<and> event_type src = ''zoom'' \<longrightarrow>
      onResizeBrush dp ev = [])"
  by (simp add: onResizeZoom_def onResizeBrush_def sourceIs_def)

text \<open>The theorem at a brush-sourced zoom event and at a zoom-sourced brush event.\<close>

theorem C2_feedback_suppression_witness:
  "onResizeZoom exampleLib exampleHistogram
     \<lparr> sourceEvent = Some \<lparr> event_type = ''brush'' \<rparr>,
       transform = Some \<lparr> t_k = Fin 2, t_x = Fin (- 100), t_y = Fin 0 \<rparr>,
       selection = None \<rparr> = (exampleHistogram, [], None) \<and>
   onResizeBrush exampleDensityChart
     \<lparr> sourceEvent = Some \<lparr> event_type = ''zoom'' \<rparr>, transform = None,
       selection = Some (Fin 54, Fin 108) \<rparr> = []"
  using C2_feedback_suppression [of
      "\<lparr> sourceEvent = Some \<lparr> event_type = ''brush'' \<rparr>,
         transform = Some \<lparr> t_k = Fin 2, t_x = Fin (- 100), t_y = Fin 0 \<rparr>,
         selection = None \<rparr>" "\<lparr> event_type = ''brush'' \<rparr>" exampleLib exampleHistogram]
    C2_feedback_suppression [of
      "\<lparr> sourceEvent = Some \<lparr> event_type = ''zoom'' \<rparr>, transform = None,
         selection = Some (Fin 54, Fin 108) \<rparr>" "\<lparr> event_type = ''zoom'' \<rparr>" _ _
      "exampleDensityChart"]
  by simp

subsection \<open>The brush handler and the selection\<close>

text \<open>
  Claim C7. On an event that is not zoom-sourced, the brush handler with no selection
  moves the brush to the pixel range of the overview scale and passes that range to
  \<open>onDomainChanged\<close>; with a selection it passes the selection on as it is and does not
  move the brush.
\<close>

theorem C7_absent_selection:
  "\<not> sourceIs ''zoom'' ev \<Longrightarrow>
   (selection ev = None \<longrightarrow>
      onResizeBrush dp ev =
        [MoveBrush (s_range (dc_densityChartXScale dp)),
         OnDomainChanged (s_range (dc_densityChartXScale dp))]) \<and>
   (\<forall>sel. selection ev = Some sel \<longrightarrow> onResizeBrush dp ev = [OnDomainChanged sel])"
  by (simp add: onResizeBrush_def Let_def)

text \<open>The theorem at a cleared brush and at a selection of \<open>[54, 108]\<close>.\<close>

theorem C7_absent_selection_witness:
  "onResizeBrush exampleDensityChart
     \<lparr> sourceEvent = None, transform = None, selection = None \<rparr>
     = [MoveBrush (Fin 0, Fin 540), OnDomainChanged (Fin 0, Fin 540)] \<and>
   onResizeBrush exampleDensityChart
     \<lparr> sourceEvent = Some \<lparr> event_type = ''mousemove'' \<rparr>, transform = None,
       selection = Some (Fin 54, Fin 108) \<rparr>
     = [OnDomainChanged (Fin 54, Fin 108)]"
  using C7_absent_selection [of "\<lparr> sourceEvent = None, transform = None, selection = None \<rparr>"
      "exampleDensityChart"]
    C7_absent_selection [of "\<lparr> sourceEvent = Some \<lparr> event_type = ''mousemove'' \<rparr>, transform = None,
       selection = Some (Fin 54, Fin 108) \<rparr>"
      "exampleDensityChart"]
  by (simp add: sourceIs_def exampleDensityChart_def)

subsection \<open>The window-change path\<close>

lemma updateBrushedDomain_skip:
  "brushDomain (this_state h) = Some prev \<Longrightarrow>
   \<not> (strict_neq (fst w) (min_d prev) \<and> strict_neq (snd w) (max_d prev)) \<Longrightarrow>
   updateBrushedDomainAndReRenderTheHistogramPlot L h w = (h, [], None)"
  by (auto simp: updateBrushedDomainAndReRenderTheHistogramPlot_def)

lemma updateBrushedDomain_undefined:
  "brushDomain (this_state h) = None \<Longrightarrow> updateBrushedDomainAndReRenderTheHistogramPlot L h w = (h, [], Some TypeError)"
  by (simp add: updateBrushedDomainAndReRenderTheHistogramPlot_def)

lemma updateBrushedDomain_effects:
  "effectsOf (updateBrushedDomainAndReRenderTheHistogramPlot L h w) = [] \<or>
   (\<exists>prev r0 t0 r1 t1. brushDomain (this_state h) = Some prev \<and>
      strict_neq (fst w) (min_d prev) \<and> strict_neq (snd w) (max_d prev) \<and>
      w = (Date r0 t0, Date r1 t1) \<and>
      effectsOf (updateBrushedDomainAndReRenderTheHistogramPlot L h w) =
        [OnIntervalChange (t0, t1)
           (num_seq (fst (s_domain (this_densityChartXScale h))) t0 \<and>
            num_seq (snd (s_domain (this_densityChartXScale h))) t1)] \<and>
      brushDomain (this_state (componentOf (updateBrushedDomainAndReRenderTheHistogramPlot L h w))) =
        Some \<lparr> min_d = Date r0 t0, max_d = Date r1 t1 \<rparr>)"
proof (cases "brushDomain (this_state h)")
  case None
  then show ?thesis by (simp add: updateBrushedDomain_undefined effectsOf_def)
next
  case (Some prev)
  show ?thesis
  proof (cases "strict_neq (fst w) (min_d prev) \<and> strict_neq (snd w) (max_d prev)")
    case False
    with Some show ?thesis by (simp add: updateBrushedDomain_skip effectsOf_def)
  next
    case True
    obtain a b where w: "w = (a, b)" by (cases w)
    show ?thesis
      using Some True w
      by (cases a; cases b)
         (auto simp: updateBrushedDomainAndReRenderTheHistogramPlot_def Let_def effectsOf_def
            componentOf_def updateHistogramChartScales_def assign_def orElse_def emptyObject_def
            split: option.splits sum.splits)
  qed
qed

lemma strict_neq_same_Date [simp]: "\<not> strict_neq (Date r t) (Date r t')"
  by (simp add: strict_neq_def)

lemmas handler_defs =
  updateBrushedDomainAndReRenderTheHistogramPlot_def Let_def effectsOf_def componentOf_def
  updateHistogramChartScales_def assign_def orElse_def emptyObject_def exampleHistogram_def
  strict_neq_def num_seq_def

text \<open>
  Claim C4, at the windows the callers build. Two calls in a row of the window-change
  path with the bounds \<open>2\<close> and \<open>8\<close>, each time in new \<open>Date\<close> objects, call
  \<open>onIntervalChange\<close> twice with the same window: the guard compares the objects with
  \<open>!==\<close>, and two different objects pass it whatever their times.
\<close>

theorem C4_equal_window_notifies_twice:
  "notifications
     (effectsOf (updateBrushedDomainAndReRenderTheHistogramPlot exampleLib exampleHistogram
        (Date 1 (Fin 2), Date 2 (Fin 8))) @
      effectsOf (updateBrushedDomainAndReRenderTheHistogramPlot exampleLib
        (componentOf (updateBrushedDomainAndReRenderTheHistogramPlot exampleLib exampleHistogram
           (Date 1 (Fin 2), Date 2 (Fin 8))))
        (Date 3 (Fin 2), Date 4 (Fin 8))))
   = [((Fin 2, Fin 8), False), ((Fin 2, Fin 8), False)]"
  by (simp add: handler_defs)

text \<open>
  Claim C5, at the flag. The component built on data spanning \<open>[0, 10]\<close> is zoomed to
  the window \<open>[2, 8]\<close> and then rendered again with another width; \<open>componentDidUpdate\<close>
  builds the overview scale from \<open>state.brushDomain\<close>, which is the window, so the
  scale's domain is \<open>[2, 8]\<close>. The next report of the window \<open>[2, 8]\<close> carries the flag
  true, while the data still span \<open>[0, 10]\<close>.
\<close>

theorem C5_flag_after_rebuild:
  "map_sum id
     (\<lambda>h. (s_domain (this_densityChartXScale h),
           notifications (effectsOf (updateBrushedDomainAndReRenderTheHistogramPlot exampleLib h
              (Date 3 (Fin 2), Date 4 (Fin 8))))))
     (receiveProps exampleLib
        (componentOf (updateBrushedDomainAndReRenderTheHistogramPlot exampleLib exampleHistogram
           (Date 1 (Fin 2), Date 2 (Fin 8))))
        ((exampleProps exampleData) \<lparr> size_width := Fin 700 \<rparr>))
   = Inr ((Fin 2, Fin 8), [((Fin 2, Fin 8), True)]) \<and>
   d3Min exampleData (xAccessor (exampleProps exampleData)) = Number (Fin 0) \<and>
   d3Max exampleData (xAccessor (exampleProps exampleData)) = Number (Fin 10)"
  by (simp add: handler_defs receiveProps_def componentDidUpdate_def eval_defs exampleData_def)

subsection \<open>The zoom transform of a brush selection\<close>

lemma onDensityChartDomainChanged_effects:
  "densityChartDimensions (this_state h) = Some ddims \<Longrightarrow>
   effectsOf (onDensityChartDomainChanged L h sel) =
     ZoomTransform (num_div (d_width ddims) (num_sub (snd sel) (fst sel))) (num_neg (fst sel)) #
     effectsOf (updateBrushedDomainAndReRenderTheHistogramPlot L h (scale_invert L (this_densityChartXScale h) (fst sel),
                       scale_invert L (this_densityChartXScale h) (snd sel)))"
  by (simp add: onDensityChartDomainChanged_def Let_def effectsOf_def split: prod.splits)

lemma updateBrushedDomain_no_zoomScales: "zoomScales (effectsOf (updateBrushedDomainAndReRenderTheHistogramPlot L h x)) = []"
  using updateBrushedDomain_effects [of L h x] by auto

text \<open>
  Claim C10. \<open>_onDensityChartDomainChanged\<close> calls \<open>zoom.transform\<close> once, with the
  scale \<open>width / (pixelMax - pixelMin)\<close> and no test of the divisor. For a selection of
  width zero the scale is not a finite number; for \<open>pixelMin < pixelMax\<close> it is the finite
  quotient.
\<close>

theorem C10_zoom_scale_division:
  "densityChartDimensions (this_state h) = Some ddims \<Longrightarrow> d_width ddims = Fin w \<Longrightarrow>
   zoomScales (effectsOf (onDensityChartDomainChanged L h (Fin pixelMin, Fin pixelMax))) =
     [num_div (Fin w) (Fin (pixelMax - pixelMin))] \<and>
   (pixelMin = pixelMax \<longrightarrow>
      (\<exists>k. zoomScales (effectsOf (onDensityChartDomainChanged L h (Fin pixelMin, Fin pixelMax))) = [k] \<and>
           \<not> isFinite k)) \<and>
   (pixelMin < pixelMax \<longrightarrow>
      zoomScales (effectsOf (onDensityChartDomainChanged L h (Fin pixelMin, Fin pixelMax))) =
        [Fin (w / (pixelMax - pixelMin))])"
proof -
  assume d: "densityChartDimensions (this_state h) = Some ddims" and w: "d_width ddims = Fin w"
  have "zoomScales (effectsOf (onDensityChartDomainChanged L h (Fin pixelMin, Fin pixelMax))) =
     num_div (Fin w) (Fin (pixelMax - pixelMin)) #
     zoomScales (effectsOf (updateBrushedDomainAndReRenderTheHistogramPlot L h (scale_invert L (this_densityChartXScale h) (Fin pixelMin),
                       scale_invert L (this_densityChartXScale h) (Fin pixelMax))))"
    by (simp add: onDensityChartDomainChanged_effects [OF d] w num_sub_def)
  then have z: "zoomScales (effectsOf (onDensityChartDomainChanged L h (Fin pixelMin, Fin pixelMax))) =
     [num_div (Fin w) (Fin (pixelMax - pixelMin))]"
    by (simp only: updateBrushedDomain_no_zoomScales)
  show ?thesis
    unfolding z by (simp add: isFinite_def)
qed

text \<open>The theorem at the selections \<open>[54, 108]\<close> and \<open>[54, 54]\<close> of the example component.\<close>

theorem C10_zoom_scale_division_witness:
  "zoomScales (effectsOf (onDensityChartDomainChanged exampleLib exampleHistogram (Fin 54, Fin 108)))
     = [Fin 10] \<and>
   zoomScales (effectsOf (onDensityChartDomainChanged exampleLib exampleHistogram (Fin 54, Fin 54)))
     = [PInf]"
  using C10_zoom_scale_division [of exampleHistogram "\<lparr> d_width = Fin 540, d_height = Fin 35 \<rparr>"
      540 exampleLib 54 108]
    C10_zoom_scale_division [of exampleHistogram "\<lparr> d_width = Fin 540, d_height = Fin 35 \<rparr>"
      540 exampleLib 54 54]
  by (simp add: exampleHistogram_def)

subsection \<open>The histogram bars\<close>




lemma pushAt_length [simp]: "length (pushAt k d bins) = length bins"
  by (simp add: pushAt_def)


lemma binData_length [simp]: "length (binData valueof lo hi tz ds bins) = length bins"
  by (induction ds arbitrary: bins) (simp_all add: Let_def)


lemma initBins_length [simp]: "length (initBins lo hi tz) = Suc (length tz)"
  by (simp add: initBins_def)




lemma barOf_sel [simp]:
  "x0 (barOf yAcc b) = x0 b" "x1 (barOf yAcc b) = x1 b" "points (barOf yAcc b) = points b"
  by (simp_all add: barOf_def)











lemma num_le_not_NaN: "num_le a b \<Longrightarrow> a \<noteq> NaN \<and> b \<noteq> NaN"
  by (simp add: num_le_def)




















end
